theory Spec2Isabelle
  imports Complex_Main "HOL-Library.List_Lexorder" "HOL-Library.Char_ord"
    "HOL-Library.Log_Nat"
begin

section \<open>Runtime values\<close>

text \<open>
  The handlers of \<^verbatim>\<open>server/src/handlers\<close> run on a JavaScript runtime and talk to
  a PostgreSQL store through a query builder. This section fixes the values both sides
  exchange.

  A JavaScript \<^verbatim>\<open>Date\<close> holds a time value, the milliseconds since
  1970-01-01T00:00:00Z, or is the invalid date. The text \<^verbatim>\<open>YYYY-MM-DD\<close> that the
  handlers cut out of \<^verbatim>\<open>toISOString()\<close>, that a \<^verbatim>\<open>date\<close> column stores and
  that \<^verbatim>\<open>new Date(text)\<close> reads back names one calendar day of the UTC calendar;
  it is represented by the number of that day, counted from 1970-01-01.
\<close>

datatype Date = Time int | Invalid_Date

type_synonym date_text = int

datatype error = RangeError string | TypeError string | StorageFailure string

definition ms_per_day :: int where
  "ms_per_day = 86400000"


text \<open>\<^verbatim>\<open>new Date(text)\<close> on a date-only text: midnight UTC of that day.\<close>

definition new_Date :: "date_text \<Rightarrow> Date" where
  "new_Date s = Time (s * ms_per_day)"

text \<open>The UTC calendar day a date falls on (none for the invalid date).\<close>

definition utc_day :: "Date \<Rightarrow> int option" where
  "utc_day d = (case d of Invalid_Date \<Rightarrow> None | Time t \<Rightarrow> Some (t div ms_per_day))"

section \<open>Rows and records\<close>

text \<open>
  The columns the handlers read are fields of their own; the columns of the schema that
  no handler touches (the schema file is not part of the sources) travel in
  \<open>other_columns\<close>, as the object spread \<^verbatim>\<open>...medicine\<close> copies them. A row as stored
  has \<open>price_per_unit\<close> as decimal text and \<open>expiry_date\<close> as date text; the record
  a handler returns has a number and a \<^verbatim>\<open>Date\<close> there.
\<close>

record 'd patient_fields =
  name :: string
  date_of_birth :: 'd
  gender :: string
  phone :: "string option"
  address :: "string option"
  emergency_contact :: "string option"
  medical_notes :: "string option"

record ('d, 'g) patient = "'d patient_fields" +
  id' :: int
  generated_columns :: 'g


text \<open>Modelled from the spec: the Transaction of its data model (id, patient reference,
  total amount, payment method, payment status, notes, creation and update timestamps).
  The schema and \<^verbatim>\<open>handlers/get_transactions.ts\<close> are not part of the sources. The
  amount is decimal text in a row and a number in a returned record; a timestamp is a
  time value in milliseconds.\<close>

datatype payment_status = pending | paid | cancelled

record 'a transaction =
  id' :: int
  patient_id :: int
  total_amount :: 'a
  payment_method :: string
  payment_status :: payment_status
  notes' :: "string option"
  created_at :: int
  updated_at :: int

record ('p, 'd, 'c) medicine =
  id' :: int
  name :: string
  stock_quantity :: int
  minimum_stock :: int
  price_per_unit :: 'p
  expiry_date :: "'d option"
  other_columns :: 'c

type_synonym 'c medicine_row = "(string, date_text, 'c) medicine"

record pagination =
  limit :: "int option"
  offset :: "int option"

record MedicineSearchInput = pagination +
  query :: "string option"
  low_stock_only :: "bool option"
  expired_only :: "bool option"

text \<open>Modelled from the spec: the filter of \<^verbatim>\<open>listTransactions\<close> (patient id, payment
  status, start and end of the creation date, limit and offset), every field optional;
  \<^verbatim>\<open>handlers/get_transactions.ts\<close> and its input type are not part of the sources.\<close>

record TransactionSearchInput = pagination +
  patient_id :: "int option"
  payment_status :: "payment_status option"
  start_date :: "int option"
  end_date :: "int option"

section \<open>The persistent store and the world around a handler\<close>

record ('c, 'g) store =
  medicinesTable :: "'c medicine_row list"
  patientsTable :: "(date_text, 'g) patient list"
  patients_id_seq :: int
  transactionsTable :: "string transaction list"

text \<open>
  A handler runs in a world: the store, the clock read by \<^verbatim>\<open>new Date()\<close>, the
  error (if any) the persistence client raises on the next round trip, the values the
  store gives to the columns an insert does not supply, the lines written by
  \<^verbatim>\<open>console.error\<close>, the number of round trips made so far, and the offset of
  local time from UTC in milliseconds.
\<close>

record ('c, 'g) world =
  db :: "('c, 'g) store"
  clock :: int
  fault :: "error option"
  column_defaults :: 'g
  console :: "(string \<times> error) list"
  round_trips :: nat
  timezone_offset :: int

section \<open>What the store accepts\<close>

text \<open>
  A value bound to a parameter of a query travels as text and the store converts it to
  the type of the column it meets; a value that does not fit is an error of the store,
  raised by the round trip. The id columns are 32-bit \<^verbatim>\<open>serial\<close> columns and the
  counts of LIMIT and OFFSET are 64-bit integers; a date is a day of the years 0001 to
  9999, the range in which the text \<^verbatim>\<open>YYYY-MM-DD\<close> is what both sides read and
  write; a text must not contain the NUL character. Except for
  \<^verbatim>\<open>OFFSET must not be negative\<close>, the message of an error of the store is not
  modelled: the error names the type that refused the value.
\<close>

definition integer_error :: "int \<Rightarrow> error option" where
  "integer_error i =
     (if - 2147483648 \<le> i \<and> i \<le> 2147483647 then None
      else Some (StorageFailure ''out of range for type integer''))"

definition bigint_error :: "int \<Rightarrow> error option" where
  "bigint_error i =
     (if - 9223372036854775808 \<le> i \<and> i \<le> 9223372036854775807 then None
      else Some (StorageFailure ''out of range for type bigint''))"

definition date_error :: "date_text \<Rightarrow> error option" where
  "date_error d =
     (if - 719162 \<le> d \<and> d \<le> 2932896 then None
      else Some (StorageFailure ''out of range for type date''))"

definition text_error :: "string \<Rightarrow> error option" where
  "text_error s =
     (if CHR 0x00 \<in> set s then Some (StorageFailure ''invalid byte sequence for type text'')
      else None)"

definition no_error :: "'v \<Rightarrow> error option" where
  "no_error v = None"

text \<open>The first error of a list of checks, in the order of the parameters.\<close>

fun first_error :: "error option list \<Rightarrow> error option" where
  "first_error [] = None"
| "first_error (None # es) = first_error es"
| "first_error (Some e # es) = Some e"

section \<open>Conditions\<close>

text \<open>
  A column reads its value from a row (\<open>None\<close> is NULL) and knows what its type
  accepts. A condition carries the error (if any) of binding its parameters and maps a
  row to SQL's three truth values (\<open>None\<close> is NULL). The second operand of a comparison
  is a column or a value.
\<close>

record ('r, 'v) column =
  cell :: "'r \<Rightarrow> 'v option"
  bind_error :: "'v \<Rightarrow> error option"

datatype ('r, 'v) operand = Col "('r, 'v) column" | Val 'v

datatype 'r SQL = SQL (rejected: "error option") (truth: "'r \<Rightarrow> bool option")

definition lower :: "char \<Rightarrow> char" where
  "lower c =
     (if 65 \<le> (of_char c :: nat) \<and> (of_char c :: nat) \<le> 90
      then char_of ((of_char c :: nat) + 32) else c)"

text \<open>
  Pattern matching of \<^verbatim>\<open>ILIKE\<close> on ASCII text: \<^verbatim>\<open>%\<close> stands for any text,
  \<^verbatim>\<open>_\<close> for one character, a backslash takes the next character literally, every
  other character stands for itself up to letter case. A pattern ending in a lone
  backslash matches nothing here; the patterns of this program end in \<^verbatim>\<open>%\<close>.
\<close>

fun like_match :: "string \<Rightarrow> string \<Rightarrow> bool" where
  "like_match [] s = (s = [])"
| "like_match (p # ps) [] = (p = CHR ''%'' \<and> like_match ps [])"
| "like_match (p # ps) (c # s) =
     (if p = CHR ''%'' then like_match ps (c # s) \<or> like_match (p # ps) s
      else if p = CHR ''_'' then like_match ps s
      else if p = CHR 0x5C then
        (case ps of [] \<Rightarrow> False | q # qs \<Rightarrow> lower q = lower c \<and> like_match qs s)
      else lower p = lower c \<and> like_match ps s)"

definition ilike :: "('r, string) column \<Rightarrow> string \<Rightarrow> 'r SQL" where
  "ilike col pat = SQL (text_error pat) (\<lambda>r. map_option (like_match pat) (cell col r))"

definition compare ::
  "('v \<Rightarrow> 'v \<Rightarrow> bool) \<Rightarrow> ('r, 'v) column \<Rightarrow> ('r, 'v) operand \<Rightarrow> 'r SQL" where
  "compare rel a b =
     (case b of
        Col c \<Rightarrow>
          SQL None (\<lambda>r. case (cell a r, cell c r) of
                           (Some x, Some y) \<Rightarrow> Some (rel x y) | _ \<Rightarrow> None)
      | Val v \<Rightarrow>
          SQL (bind_error a v) (\<lambda>r. case cell a r of
                                      Some x \<Rightarrow> Some (rel x v) | None \<Rightarrow> None))"

definition lte :: "('r, 'v::linorder) column \<Rightarrow> ('r, 'v) operand \<Rightarrow> 'r SQL" where
  "lte = compare (\<lambda>x y. x \<le> y)"

definition gte :: "('r, 'v::linorder) column \<Rightarrow> ('r, 'v) operand \<Rightarrow> 'r SQL" where
  "gte = compare (\<lambda>x y. x \<ge> y)"

definition eq :: "('r, 'v) column \<Rightarrow> ('r, 'v) operand \<Rightarrow> 'r SQL" where
  "eq = compare (\<lambda>x y. x = y)"

fun and3 :: "bool option \<Rightarrow> bool option \<Rightarrow> bool option" where
  "and3 (Some False) _ = Some False"
| "and3 _ (Some False) = Some False"
| "and3 (Some True) (Some True) = Some True"
| "and3 _ _ = None"

definition and' :: "'r SQL list \<Rightarrow> 'r SQL" where
  "and' cs =
     SQL (first_error (map rejected cs))
         (\<lambda>r. foldr (\<lambda>c acc. and3 (truth c r) acc) cs (Some True))"

section \<open>Queries\<close>

text \<open>
  An order term is the stable sort it stands for; \<^verbatim>\<open>orderBy(t1, t2)\<close> sorts by
  \<open>t1\<close> and breaks ties by \<open>t2\<close>. Ascending order puts NULL last and descending order
  puts it first, as PostgreSQL does. SQL leaves open the order of rows that tie on every
  term; here they stay in table order. Text is ordered by the collation of the store, a
  parameter \<open>collate\<close> that maps a text to its sort key.
\<close>

type_synonym 'r order_term = "'r list \<Rightarrow> 'r list"

definition asc :: "('r, 'k::linorder) column \<Rightarrow> 'r order_term" where
  "asc col rs =
     sort_key (\<lambda>r. the (cell col r)) (filter (\<lambda>r. cell col r \<noteq> None) rs)
       @ filter (\<lambda>r. cell col r = None) rs"

definition desc :: "('r, 'k::linorder) column \<Rightarrow> 'r order_term" where
  "desc col rs =
     filter (\<lambda>r. cell col r = None) rs
       @ rev (sort_key (\<lambda>r. the (cell col r)) (rev (filter (\<lambda>r. cell col r \<noteq> None) rs)))"

definition collated :: "(string \<Rightarrow> 'k) \<Rightarrow> ('r, string) column \<Rightarrow> ('r, 'k) column" where
  "collated collate col =
     \<lparr>cell = (\<lambda>r. map_option collate (cell col r)), bind_error = no_error\<rparr>"

record ('r, 'c, 'g) select_query =
  q_from :: "('c, 'g) store \<Rightarrow> 'r list"
  q_where :: "'r SQL option"
  q_orderBy :: "'r order_term list"
  q_limit :: "int option"
  q_offset :: "int option"

definition select_from :: "(('c, 'g) store \<Rightarrow> 'r list) \<Rightarrow> ('r, 'c, 'g) select_query" where
  "select_from t =
     \<lparr>q_from = t, q_where = None, q_orderBy = [], q_limit = None, q_offset = None\<rparr>"

definition where' :: "'r SQL \<Rightarrow> ('r, 'c, 'g) select_query \<Rightarrow> ('r, 'c, 'g) select_query" where
  "where' c q = q\<lparr>q_where := Some c\<rparr>"

definition orderBy :: "'r order_term list \<Rightarrow> ('r, 'c, 'g) select_query \<Rightarrow> ('r, 'c, 'g) select_query" where
  "orderBy ts q = q\<lparr>q_orderBy := ts\<rparr>"

definition limit' :: "int \<Rightarrow> ('r, 'c, 'g) select_query \<Rightarrow> ('r, 'c, 'g) select_query" where
  "limit' n q = q\<lparr>q_limit := Some n\<rparr>"

definition offset' :: "int \<Rightarrow> ('r, 'c, 'g) select_query \<Rightarrow> ('r, 'c, 'g) select_query" where
  "offset' n q = q\<lparr>q_offset := Some n\<rparr>"

text \<open>
  The clauses the query builder writes: a LIMIT for a limit that is not negative (a
  negative limit is dropped), an OFFSET for an offset that is not zero.
\<close>

definition limit_clause :: "('r, 'c, 'g) select_query \<Rightarrow> int option" where
  "limit_clause q = (case q_limit q of Some n \<Rightarrow> if 0 \<le> n then Some n else None | None \<Rightarrow> None)"

definition offset_clause :: "('r, 'c, 'g) select_query \<Rightarrow> int option" where
  "offset_clause q = (case q_offset q of Some n \<Rightarrow> if n \<noteq> 0 then Some n else None | None \<Rightarrow> None)"

text \<open>
  The error the store raises for a query, if any: the first parameter it cannot bind, in
  the order condition, LIMIT, OFFSET; then a negative OFFSET.
\<close>

definition query_error :: "('r, 'c, 'g) select_query \<Rightarrow> error option" where
  "query_error q =
     first_error
       [case q_where q of Some c \<Rightarrow> rejected c | None \<Rightarrow> None,
        case limit_clause q of Some n \<Rightarrow> bigint_error n | None \<Rightarrow> None,
        case offset_clause q of Some n \<Rightarrow> bigint_error n | None \<Rightarrow> None,
        case offset_clause q of
          Some n \<Rightarrow> if n < 0 then Some (StorageFailure ''OFFSET must not be negative'') else None
        | None \<Rightarrow> None]"

text \<open>What a query selects from a store: the rows its condition holds for, ordered, then
  the OFFSET skipped, then the LIMIT taken.\<close>

definition selected :: "('r, 'c, 'g) select_query \<Rightarrow> ('c, 'g) store \<Rightarrow> 'r list" where
  "selected q s =
     (let matching = (case q_where q of
                        None \<Rightarrow> q_from q s
                      | Some c \<Rightarrow> filter (\<lambda>r. truth c r = Some True) (q_from q s));
          ordered = foldr (\<lambda>t rs. t rs) (q_orderBy q) matching;
          skipped = (case offset_clause q of
                       None \<Rightarrow> ordered | Some n \<Rightarrow> drop (nat n) ordered)
      in case limit_clause q of None \<Rightarrow> skipped | Some n \<Rightarrow> take (nat n) skipped)"

definition rows_of :: "('r, 'c, 'g) select_query \<Rightarrow> ('c, 'g) store \<Rightarrow> error + 'r list" where
  "rows_of q s = (case query_error q of Some e \<Rightarrow> Inl e | None \<Rightarrow> Inr (selected q s))"

text \<open>One round trip of a select: the client's fault if it has one, else the error of
  the store or the rows. The store is not written.\<close>

definition execute ::
  "('r, 'c, 'g) select_query \<Rightarrow> ('c, 'g) world \<Rightarrow> (error + 'r list) \<times> ('c, 'g) world" where
  "execute q w =
     (let w' = w\<lparr>round_trips := Suc (round_trips w)\<rparr>
      in case fault w of
           Some e \<Rightarrow> (Inl e, w')
         | None \<Rightarrow> (rows_of q (db w), w'))"

text \<open>\<^verbatim>\<open>try { body } catch (error) { console.error(msg, error); throw error; }\<close>\<close>

definition try_catch ::
  "string \<Rightarrow> (('c, 'g) world \<Rightarrow> (error + 'a) \<times> ('c, 'g) world)
     \<Rightarrow> ('c, 'g) world \<Rightarrow> (error + 'a) \<times> ('c, 'g) world" where
  "try_catch msg body w =
     (case body w of
        (Inl e, w') \<Rightarrow> (Inl e, w'\<lparr>console := console w' @ [(msg, e)]\<rparr>)
      | (Inr v, w') \<Rightarrow> (Inr v, w'))"

section \<open>The medicine handlers (\<^verbatim>\<open>handlers/get_medicines.ts\<close>)\<close>

text \<open>The field-mapping pass: \<^verbatim>\<open>parseFloat\<close> on the price, \<^verbatim>\<open>new Date\<close> on a
  non-null expiry date. The handlers take the runtime's \<^verbatim>\<open>parseFloat\<close> as a
  parameter; the function itself is defined further down.\<close>

definition to_Medicine :: "(string \<Rightarrow> 'n) \<Rightarrow> 'c medicine_row \<Rightarrow> ('n, Date, 'c) medicine" where
  "to_Medicine parseFloat medicine =
     \<lparr>id' = id' medicine, name = name medicine,
      stock_quantity = stock_quantity medicine, minimum_stock = minimum_stock medicine,
      price_per_unit = parseFloat (price_per_unit medicine),
      expiry_date = (case expiry_date medicine of None \<Rightarrow> None | Some s \<Rightarrow> Some (new_Date s)),
      other_columns = other_columns medicine\<rparr>"

text \<open>The columns of \<open>medicinesTable\<close>.\<close>

definition medicinesTable_id :: "('c medicine_row, int) column" where
  "medicinesTable_id = \<lparr>cell = (\<lambda>r. Some (id' r)), bind_error = integer_error\<rparr>"

definition medicinesTable_name :: "('c medicine_row, string) column" where
  "medicinesTable_name = \<lparr>cell = (\<lambda>r. Some (name r)), bind_error = text_error\<rparr>"

definition medicinesTable_stock_quantity :: "('c medicine_row, int) column" where
  "medicinesTable_stock_quantity =
     \<lparr>cell = (\<lambda>r. Some (stock_quantity r)), bind_error = integer_error\<rparr>"

definition medicinesTable_minimum_stock :: "('c medicine_row, int) column" where
  "medicinesTable_minimum_stock =
     \<lparr>cell = (\<lambda>r. Some (minimum_stock r)), bind_error = integer_error\<rparr>"

definition medicinesTable_expiry_date :: "('c medicine_row, date_text) column" where
  "medicinesTable_expiry_date = \<lparr>cell = expiry_date, bind_error = date_error\<rparr>"

text \<open>\<^verbatim>\<open>new Date().toISOString().split('T')[0]\<close>: the clock is never the invalid date.\<close>

definition current_date :: "('c, 'g) world \<Rightarrow> date_text" where
  "current_date w = clock w div ms_per_day"

text \<open>Lines 8 to 27 of the source: the conditions pushed for the fields of the input.\<close>

definition getMedicines_conditions ::
  "('c, 'g) world \<Rightarrow> MedicineSearchInput option \<Rightarrow> 'c medicine_row SQL list" where
  "getMedicines_conditions w input =
     (case input of
        None \<Rightarrow> []
      | Some i \<Rightarrow>
          (case query i of
             Some q \<Rightarrow> if q \<noteq> [] then [ilike medicinesTable_name (''%'' @ q @ ''%'')] else []
           | None \<Rightarrow> [])
          @ (if low_stock_only i = Some True
             then [lte medicinesTable_stock_quantity (Col medicinesTable_minimum_stock)] else [])
          @ (if expired_only i = Some True
             then [lte medicinesTable_expiry_date (Val (current_date w))] else []))"

text \<open>Lines 29 to 44 of the source: the query built from the conditions.\<close>

definition getMedicines_finalQuery ::
  "(string \<Rightarrow> 'k::linorder) \<Rightarrow> MedicineSearchInput option \<Rightarrow> ('c, 'g) world
     \<Rightarrow> ('c medicine_row, 'c, 'g) select_query" where
  "getMedicines_finalQuery collate input w =
     (let conditions = getMedicines_conditions w input;
          baseQuery = select_from medicinesTable;
          whereQuery =
            (if length conditions > 0
             then where' (if length conditions = 1 then conditions ! 0 else and' conditions)
                    baseQuery
             else baseQuery);
          orderedQuery = orderBy [asc (collated collate medicinesTable_name)] whereQuery;
          limitQuery =
            (case (case input of None \<Rightarrow> None | Some i \<Rightarrow> limit i) of
               Some n \<Rightarrow> if n \<noteq> 0 then limit' n orderedQuery else orderedQuery
             | None \<Rightarrow> orderedQuery);
          finalQuery =
            (case (case input of None \<Rightarrow> None | Some i \<Rightarrow> offset i) of
               Some n \<Rightarrow> if n \<noteq> 0 then offset' n limitQuery else limitQuery
             | None \<Rightarrow> limitQuery)
      in finalQuery)"

definition getMedicines ::
  "(string \<Rightarrow> 'n) \<Rightarrow> (string \<Rightarrow> 'k::linorder) \<Rightarrow> MedicineSearchInput option
     \<Rightarrow> ('c, 'g) world \<Rightarrow> (error + ('n, Date, 'c) medicine list) \<times> ('c, 'g) world" where
  "getMedicines parseFloat collate input =
     try_catch ''Failed to get medicines:'' (\<lambda>w.
       case execute (getMedicines_finalQuery collate input w) w of
         (Inl e, w') \<Rightarrow> (Inl e, w')
       | (Inr results, w') \<Rightarrow> (Inr (map (to_Medicine parseFloat) results), w'))"

definition getMedicineById_query :: "int \<Rightarrow> ('c medicine_row, 'c, 'g) select_query" where
  "getMedicineById_query i = where' (eq medicinesTable_id (Val i)) (select_from medicinesTable)"

definition getMedicineById ::
  "(string \<Rightarrow> 'n) \<Rightarrow> int \<Rightarrow> ('c, 'g) world
     \<Rightarrow> (error + ('n, Date, 'c) medicine option) \<times> ('c, 'g) world" where
  "getMedicineById parseFloat i =
     try_catch ''Failed to get medicine by ID:'' (\<lambda>w.
       case execute (getMedicineById_query i) w of
         (Inl e, w') \<Rightarrow> (Inl e, w')
       | (Inr results, w') \<Rightarrow>
           (if length results = 0 then (Inr None, w')
            else (Inr (Some (to_Medicine parseFloat (results ! 0))), w')))"

definition getLowStockMedicines_query ::
  "(string \<Rightarrow> 'k::linorder) \<Rightarrow> ('c medicine_row, 'c, 'g) select_query" where
  "getLowStockMedicines_query collate =
     orderBy [desc medicinesTable_minimum_stock, asc (collated collate medicinesTable_name)]
       (where' (lte medicinesTable_stock_quantity (Col medicinesTable_minimum_stock))
         (select_from medicinesTable))"

definition getLowStockMedicines ::
  "(string \<Rightarrow> 'n) \<Rightarrow> (string \<Rightarrow> 'k::linorder) \<Rightarrow> ('c, 'g) world
     \<Rightarrow> (error + ('n, Date, 'c) medicine list) \<times> ('c, 'g) world" where
  "getLowStockMedicines parseFloat collate =
     try_catch ''Failed to get low stock medicines:'' (\<lambda>w.
       case execute (getLowStockMedicines_query collate) w of
         (Inl e, w') \<Rightarrow> (Inl e, w')
       | (Inr results, w') \<Rightarrow> (Inr (map (to_Medicine parseFloat) results), w'))"

definition getExpiredMedicines_query ::
  "(string \<Rightarrow> 'k::linorder) \<Rightarrow> date_text \<Rightarrow> ('c medicine_row, 'c, 'g) select_query" where
  "getExpiredMedicines_query collate today =
     orderBy [asc medicinesTable_expiry_date, asc (collated collate medicinesTable_name)]
       (where' (lte medicinesTable_expiry_date (Val today))
         (select_from medicinesTable))"

definition getExpiredMedicines ::
  "(string \<Rightarrow> 'n) \<Rightarrow> (string \<Rightarrow> 'k::linorder) \<Rightarrow> ('c, 'g) world
     \<Rightarrow> (error + ('n, Date, 'c) medicine list) \<times> ('c, 'g) world" where
  "getExpiredMedicines parseFloat collate =
     try_catch ''Failed to get expired medicines:'' (\<lambda>w.
       let today = current_date w
       in case execute (getExpiredMedicines_query collate today) w of
            (Inl e, w') \<Rightarrow> (Inl e, w')
          | (Inr results, w') \<Rightarrow> (Inr (map (to_Medicine parseFloat) results), w'))"

section \<open>The patient handler (\<^verbatim>\<open>handlers/create_patient.ts\<close>)\<close>





section \<open>The transaction handlers\<close>

text \<open>Modelled from the spec: the field-mapping pass of the transaction operations, which
  coerces the amount to a number; \<^verbatim>\<open>handlers/get_transactions.ts\<close> is not part of
  the sources.\<close>

definition to_Transaction :: "(string \<Rightarrow> 'n) \<Rightarrow> string transaction \<Rightarrow> 'n transaction" where
  "to_Transaction parseFloat t =
     \<lparr>transaction.id' = transaction.id' t,
      transaction.patient_id = transaction.patient_id t,
      total_amount = parseFloat (total_amount t),
      payment_method = payment_method t,
      transaction.payment_status = transaction.payment_status t,
      notes' = notes' t, created_at = created_at t, updated_at = updated_at t\<rparr>"

text \<open>Modelled from the spec: the columns of the transactions a filter compares. What a
  timestamp parameter may hold is not in the spec and is not restricted here.\<close>

definition transactionsTable_id :: "(string transaction, int) column" where
  "transactionsTable_id =
     \<lparr>cell = (\<lambda>t. Some (transaction.id' t)), bind_error = integer_error\<rparr>"

definition transactionsTable_patient_id :: "(string transaction, int) column" where
  "transactionsTable_patient_id =
     \<lparr>cell = (\<lambda>t. Some (transaction.patient_id t)), bind_error = integer_error\<rparr>"

definition transactionsTable_payment_status ::
  "(string transaction, payment_status) column" where
  "transactionsTable_payment_status =
     \<lparr>cell = (\<lambda>t. Some (transaction.payment_status t)), bind_error = no_error\<rparr>"

definition transactionsTable_created_at :: "(string transaction, int) column" where
  "transactionsTable_created_at =
     \<lparr>cell = (\<lambda>t. Some (created_at t)), bind_error = no_error\<rparr>"

text \<open>Modelled from the spec: the filter composition algorithm of
  \<^verbatim>\<open>listTransactions\<close> (an ordered list of predicates; each present field appends
  its predicate: patient id and payment status by exact match, creation date at or after
  the start, creation date at or before the end).\<close>

definition getTransactions_conditions ::
  "TransactionSearchInput option \<Rightarrow> string transaction SQL list" where
  "getTransactions_conditions input =
     (case input of
        None \<Rightarrow> []
      | Some i \<Rightarrow>
          (case patient_id i of
             Some p \<Rightarrow> [eq transactionsTable_patient_id (Val p)] | None \<Rightarrow> [])
          @ (case payment_status i of
               Some s \<Rightarrow> [eq transactionsTable_payment_status (Val s)] | None \<Rightarrow> [])
          @ (case start_date i of
               Some d \<Rightarrow> [gte transactionsTable_created_at (Val d)] | None \<Rightarrow> [])
          @ (case end_date i of
               Some d \<Rightarrow> [lte transactionsTable_created_at (Val d)] | None \<Rightarrow> []))"

text \<open>Modelled from the spec: the query of \<^verbatim>\<open>listTransactions(filter?)\<close>. The
  predicates are combined with AND if there are any, otherwise no filter is applied; the
  order is the creation timestamp descending; limit (unset: all rows) and offset
  (default 0) apply after ordering.\<close>

definition getTransactions_finalQuery ::
  "TransactionSearchInput option \<Rightarrow> (string transaction, 'c, 'g) select_query" where
  "getTransactions_finalQuery input =
     (let conditions = getTransactions_conditions input;
          baseQuery = select_from transactionsTable;
          whereQuery =
            (if conditions \<noteq> [] then where' (and' conditions) baseQuery else baseQuery);
          orderedQuery = orderBy [desc transactionsTable_created_at] whereQuery;
          limitQuery =
            (case (case input of None \<Rightarrow> None | Some i \<Rightarrow> limit i) of
               Some n \<Rightarrow> limit' n orderedQuery
             | None \<Rightarrow> orderedQuery);
          finalQuery =
            (case (case input of None \<Rightarrow> None | Some i \<Rightarrow> offset i) of
               Some n \<Rightarrow> offset' n limitQuery
             | None \<Rightarrow> limitQuery)
      in finalQuery)"

text \<open>Modelled from the spec: \<^verbatim>\<open>listTransactions(filter?)\<close>: the query is run, the
  amount of each row is coerced to a number, and a persistence error is logged and
  rethrown. The text of the log line is not in the spec.\<close>

definition getTransactions ::
  "(string \<Rightarrow> 'n) \<Rightarrow> TransactionSearchInput option \<Rightarrow> ('c, 'g) world
     \<Rightarrow> (error + 'n transaction list) \<times> ('c, 'g) world" where
  "getTransactions parseFloat input =
     try_catch ''Failed to get transactions:'' (\<lambda>w.
       case execute (getTransactions_finalQuery input) w of
         (Inl e, w') \<Rightarrow> (Inl e, w')
       | (Inr results, w') \<Rightarrow> (Inr (map (to_Transaction parseFloat) results), w'))"

text \<open>Modelled from the spec: \<^verbatim>\<open>getTransactionById(id)\<close>, an exact-match lookup that
  returns the record or the not-found signal.\<close>

definition getTransactionById_query :: "int \<Rightarrow> (string transaction, 'c, 'g) select_query" where
  "getTransactionById_query i =
     where' (eq transactionsTable_id (Val i)) (select_from transactionsTable)"

definition getTransactionById ::
  "(string \<Rightarrow> 'n) \<Rightarrow> int \<Rightarrow> ('c, 'g) world
     \<Rightarrow> (error + 'n transaction option) \<times> ('c, 'g) world" where
  "getTransactionById parseFloat i =
     try_catch ''Failed to get transaction by ID:'' (\<lambda>w.
       case execute (getTransactionById_query i) w of
         (Inl e, w') \<Rightarrow> (Inl e, w')
       | (Inr results, w') \<Rightarrow>
           (case results of
              [] \<Rightarrow> (Inr None, w')
            | t # _ \<Rightarrow> (Inr (Some (to_Transaction parseFloat t)), w')))"

text \<open>Modelled from the spec: \<^verbatim>\<open>listTodayTransactions()\<close>, the specialization of
  \<^verbatim>\<open>listTransactions\<close> with start = local midnight of the current day and no end.\<close>

definition local_midnight :: "('c, 'g) world \<Rightarrow> int" where
  "local_midnight w =
     ((clock w + timezone_offset w) div ms_per_day) * ms_per_day - timezone_offset w"

definition getTodayTransactions ::
  "(string \<Rightarrow> 'n) \<Rightarrow> ('c, 'g) world \<Rightarrow> (error + 'n transaction list) \<times> ('c, 'g) world" where
  "getTodayTransactions parseFloat w =
     getTransactions parseFloat
       (Some \<lparr>limit = None, offset = None, patient_id = None, payment_status = None,
              start_date = Some (local_midnight w), end_date = None\<rparr>) w"

text \<open>Modelled from the spec: \<^verbatim>\<open>listPendingTransactions()\<close>, the specialization of
  \<^verbatim>\<open>listTransactions\<close> that filters payment status = pending.\<close>

definition getPendingTransactions ::
  "(string \<Rightarrow> 'n) \<Rightarrow> ('c, 'g) world \<Rightarrow> (error + 'n transaction list) \<times> ('c, 'g) world" where
  "getPendingTransactions parseFloat =
     getTransactions parseFloat
       (Some \<lparr>limit = None, offset = None, patient_id = None, payment_status = Some pending,
              start_date = None, end_date = None\<rparr>)"

section \<open>Numbers (\<^verbatim>\<open>parseFloat\<close>)\<close>

text \<open>
  A JavaScript number is a double-precision floating-point number: a rational of the
  form \<open>m \<cdot> 2\<^sup>e\<close>, or NaN, or an infinity (the sign of zero is not modelled).
  \<^verbatim>\<open>parseFloat\<close> skips leading white space, reads the longest prefix that is a decimal
  literal and returns the number nearest to the value of the literal, ties going to the
  even mantissa; without such a prefix it returns NaN. White space is ASCII white space.
\<close>

datatype number = Finite rat | NaN | Infinity | Neg_Infinity

definition is_digit :: "char \<Rightarrow> bool" where
  "is_digit c = (48 \<le> (of_char c :: nat) \<and> (of_char c :: nat) \<le> 57)"

definition is_space :: "char \<Rightarrow> bool" where
  "is_space c = ((9 \<le> (of_char c :: nat) \<and> (of_char c :: nat) \<le> 13) \<or> (of_char c :: nat) = 32)"

definition digits_value :: "string \<Rightarrow> int" where
  "digits_value ds = foldl (\<lambda>a c. 10 * a + ((of_char c :: int) - 48)) 0 ds"

text \<open>A literal: an infinity with its sign, or sign, coefficient \<open>n\<close> and power of ten
  \<open>k\<close>, of value \<open>\<plusminus> n \<cdot> 10\<^sup>k\<close>.\<close>

datatype literal = Infinity_literal bool | Decimal_literal bool int int

definition sign_prefix :: "string \<Rightarrow> bool \<times> string" where
  "sign_prefix s =
     (case s of
        [] \<Rightarrow> (False, [])
      | c # r \<Rightarrow> if c = CHR ''-'' then (True, r) else if c = CHR ''+'' then (False, r)
                 else (False, s))"

definition exponent_part :: "string \<Rightarrow> int" where
  "exponent_part s =
     (case s of
        [] \<Rightarrow> 0
      | c # r \<Rightarrow>
          if c = CHR ''e'' \<or> c = CHR ''E''
          then (let ds = takeWhile is_digit (snd (sign_prefix r))
                in if ds = [] then 0
                   else if fst (sign_prefix r) then - digits_value ds
                   else digits_value ds)
          else 0)"

definition StrDecimalLiteral :: "string \<Rightarrow> literal option" where
  "StrDecimalLiteral s =
     (let neg = fst (sign_prefix s);
          r0 = snd (sign_prefix s)
      in if take 8 r0 = ''Infinity'' then Some (Infinity_literal neg)
         else
           let ip = takeWhile is_digit r0;
               r1 = dropWhile is_digit r0;
               has_point = (case r1 of [] \<Rightarrow> False | c # r \<Rightarrow> c = CHR ''.'');
               fp = (if has_point then takeWhile is_digit (tl r1) else []);
               r2 = (if has_point then dropWhile is_digit (tl r1) else r1)
           in if ip = [] \<and> fp = [] then None
              else Some (Decimal_literal neg (digits_value (ip @ fp))
                           (exponent_part r2 - int (length fp))))"

text \<open>\<open>b\<^sup>k\<close> for an integer \<open>k\<close>.\<close>

definition power_of :: "rat \<Rightarrow> int \<Rightarrow> rat" where
  "power_of b k = (if 0 \<le> k then b ^ nat k else 1 / b ^ nat (- k))"

text \<open>The exact value of a decimal text.\<close>

definition literal_value :: "bool \<Rightarrow> int \<Rightarrow> int \<Rightarrow> rat" where
  "literal_value neg n k = (if neg then - of_int n else of_int n) * power_of 10 k"

definition mathematical_value :: "string \<Rightarrow> rat option" where
  "mathematical_value s =
     (case StrDecimalLiteral (dropWhile is_space s) of
        Some (Decimal_literal neg n k) \<Rightarrow> Some (literal_value neg n k)
      | _ \<Rightarrow> None)"

text \<open>\<open>\<lfloor>log\<^sub>2 (num / den)\<rfloor>\<close> for positive \<open>num\<close> and \<open>den\<close>.\<close>

definition floor_log2 :: "int \<Rightarrow> int \<Rightarrow> int" where
  "floor_log2 num den =
     (let k = bitlen num - bitlen den
      in if (if 0 \<le> k then den * 2 ^ nat k \<le> num else den \<le> num * 2 ^ nat (- k))
         then k else k - 1)"

text \<open>The integer nearest to \<open>num / den\<close> for positive \<open>den\<close>, ties to even.\<close>

definition round_half_even :: "int \<Rightarrow> int \<Rightarrow> int" where
  "round_half_even num den =
     (let f = num div den; r = num mod den
      in if 2 * r < den then f else if den < 2 * r then f + 1
         else if even f then f else f + 1)"

text \<open>The double nearest to \<open>n \<cdot> 10\<^sup>k\<close> for positive \<open>n\<close>, as mantissa and exponent:
  the mantissa has 53 bits, the exponent is at least \<open>-1074\<close>.\<close>

definition nearest_double :: "int \<Rightarrow> int \<Rightarrow> int \<times> int" where
  "nearest_double n k =
     (let num = (if 0 \<le> k then n * 10 ^ nat k else n);
          den = (if 0 \<le> k then 1 else 10 ^ nat (- k));
          e = max (floor_log2 num den - 52) (- 1074);
          m = (if 0 \<le> e then round_half_even num (den * 2 ^ nat e)
               else round_half_even (num * 2 ^ nat (- e)) den)
      in (m, e))"

definition to_number :: "bool \<Rightarrow> int \<Rightarrow> int \<Rightarrow> number" where
  "to_number neg n k =
     (if n = 0 then Finite 0
      else
        let m = fst (nearest_double n k); e = snd (nearest_double n k)
        in if 971 < e \<or> (e = 971 \<and> m = 9007199254740992)
           then (if neg then Neg_Infinity else Infinity)
           else Finite ((if neg then - of_int m else of_int m) * power_of 2 e))"

definition parseFloat :: "string \<Rightarrow> number" where
  "parseFloat s =
     (case StrDecimalLiteral (dropWhile is_space s) of
        None \<Rightarrow> NaN
      | Some (Infinity_literal neg) \<Rightarrow> (if neg then Neg_Infinity else Infinity)
      | Some (Decimal_literal neg n k) \<Rightarrow> to_number neg n k)"

section \<open>The specification's notions\<close>

text \<open>The definitions of this section follow the words of the specification; the
  theorems below compare the handlers with them.\<close>

text \<open>Low stock: stock\_quantity \<open>\<le>\<close> minimum\_stock.\<close>

definition low_stock :: "('p, 'd, 'c) medicine \<Rightarrow> bool" where
  "low_stock m = (stock_quantity m \<le> minimum_stock m)"

text \<open>Expired: expiry\_date \<open>\<le>\<close> current date; a medicine without an expiry date has
  no date to compare.\<close>

definition expired :: "date_text \<Rightarrow> 'c medicine_row \<Rightarrow> bool" where
  "expired today m = (case expiry_date m of None \<Rightarrow> False | Some d \<Rightarrow> d \<le> today)"

text \<open>The predicates of the filter fields that are present: the name pattern for a
  query, the low-stock predicate for a low-stock-only flag that is set, the expired
  predicate for an expired-only flag that is set. A flag that is present and not set asks
  for nothing.\<close>

definition present_predicates ::
  "date_text \<Rightarrow> MedicineSearchInput option \<Rightarrow> ('c medicine_row \<Rightarrow> bool) list" where
  "present_predicates today input =
     (case input of
        None \<Rightarrow> []
      | Some i \<Rightarrow>
          (case query i of
             None \<Rightarrow> [] | Some q \<Rightarrow> [\<lambda>m. like_match (''%'' @ q @ ''%'') (name m)])
          @ (case low_stock_only i of
               None \<Rightarrow> [] | Some b \<Rightarrow> [\<lambda>m. if b then low_stock m else True])
          @ (case expired_only i of
               None \<Rightarrow> [] | Some b \<Rightarrow> [\<lambda>m. if b then expired today m else True]))"

definition transaction_present_predicates ::
  "TransactionSearchInput option \<Rightarrow> ('a transaction \<Rightarrow> bool) list" where
  "transaction_present_predicates input =
     (case input of
        None \<Rightarrow> []
      | Some i \<Rightarrow>
          (case patient_id i of
             None \<Rightarrow> [] | Some p \<Rightarrow> [\<lambda>t. transaction.patient_id t = p])
          @ (case payment_status i of
               None \<Rightarrow> [] | Some s \<Rightarrow> [\<lambda>t. transaction.payment_status t = s])
          @ (case start_date i of
               None \<Rightarrow> [] | Some d \<Rightarrow> [\<lambda>t. created_at t \<ge> d])
          @ (case end_date i of
               None \<Rightarrow> [] | Some d \<Rightarrow> [\<lambda>t. created_at t \<le> d]))"

text \<open>The logical AND of a list of predicates; the empty list matches all.\<close>

definition satisfies_all :: "('r \<Rightarrow> bool) list \<Rightarrow> 'r \<Rightarrow> bool" where
  "satisfies_all ps r = list_all (\<lambda>p. p r) ps"

text \<open>Pagination: limit (unset: all rows) and offset (default 0).\<close>

definition paginate :: "int option \<Rightarrow> int option \<Rightarrow> 'a list \<Rightarrow> 'a list" where
  "paginate l off xs =
     (let skipped = drop (nat (case off of None \<Rightarrow> 0 | Some n \<Rightarrow> n)) xs
      in case l of None \<Rightarrow> skipped | Some n \<Rightarrow> take (nat n) skipped)"

text \<open>The records a handler returned (none if it threw).\<close>

definition returned :: "(error + 'a list) \<times> 'w \<Rightarrow> 'a set" where
  "returned res = (case fst res of Inl e \<Rightarrow> {} | Inr xs \<Rightarrow> set xs)"

text \<open>What a failure of a round trip leaves behind: one round trip was made, one line
  was logged, and the rest of the world, the store included, is as it was.\<close>

definition failed :: "string \<Rightarrow> error \<Rightarrow> ('c, 'g) world \<Rightarrow> ('c, 'g) world" where
  "failed msg e w =
     w\<lparr>round_trips := Suc (round_trips w), console := console w @ [(msg, e)]\<rparr>"

text \<open>The inputs of \<^verbatim>\<open>getMedicines\<close> whose query the round trip answers without an
  error: the client has no fault, the query text has no NUL character, today is a date
  the store reads when the expired filter is on, the limit and the offset fit 64 bits,
  and the offset is not negative.\<close>

definition accepted :: "('c, 'g) world \<Rightarrow> MedicineSearchInput option \<Rightarrow> bool" where
  "accepted w input =
     (fault w = None \<and>
      (case input of
         None \<Rightarrow> True
       | Some i \<Rightarrow>
           (case query i of Some q \<Rightarrow> CHR 0x00 \<notin> set q | None \<Rightarrow> True)
           \<and> (if expired_only i = Some True then date_error (current_date w) = None else True)
           \<and> (case limit i of Some n \<Rightarrow> n \<le> 9223372036854775807 | None \<Rightarrow> True)
           \<and> (case offset i of
                 Some n \<Rightarrow> 0 \<le> n \<and> n \<le> 9223372036854775807 | None \<Rightarrow> True)))"

text \<open>An input without its limit and offset; the inputs that set one flag only.\<close>

definition unpaginated :: "MedicineSearchInput option \<Rightarrow> MedicineSearchInput option" where
  "unpaginated input =
     (case input of None \<Rightarrow> None | Some i \<Rightarrow> Some (i\<lparr>limit := None, offset := None\<rparr>))"

definition low_stock_filter :: MedicineSearchInput where
  "low_stock_filter =
     \<lparr>limit = None, offset = None, query = None, low_stock_only = Some True,
      expired_only = None\<rparr>"

definition expired_filter :: MedicineSearchInput where
  "expired_filter =
     \<lparr>limit = None, offset = None, query = None, low_stock_only = None,
      expired_only = Some True\<rparr>"

section \<open>Auxiliary notions\<close>

text \<open>A number is falsy in JavaScript when it is absent or zero.\<close>

definition nonzero :: "int option \<Rightarrow> int option" where
  "nonzero x = (if x = Some 0 then None else x)"

text \<open>\<^verbatim>\<open>input?.limit\<close> and \<^verbatim>\<open>input?.offset\<close>.\<close>

definition input_limit :: "MedicineSearchInput option \<Rightarrow> int option" where
  "input_limit input = (case input of None \<Rightarrow> None | Some i \<Rightarrow> limit i)"

definition input_offset :: "MedicineSearchInput option \<Rightarrow> int option" where
  "input_offset input = (case input of None \<Rightarrow> None | Some i \<Rightarrow> offset i)"

text \<open>The rows a query's condition keeps.\<close>

definition matching :: "('r, 'c, 'g) select_query \<Rightarrow> ('c, 'g) store \<Rightarrow> 'r list" where
  "matching q s =
     (case q_where q of
        None \<Rightarrow> q_from q s
      | Some c \<Rightarrow> filter (\<lambda>r. truth c r = Some True) (q_from q s))"

text \<open>A limit takes effect when it is positive: zero is falsy for the handler, and the
  query builder drops a negative limit.\<close>

definition applied_limit :: "int option \<Rightarrow> int option" where
  "applied_limit x = (case x of Some n \<Rightarrow> if 0 < n then Some n else None | None \<Rightarrow> None)"




text \<open>The error, if any, that one round trip of a query raises in a world.\<close>

definition raised :: "('r, 'c, 'g) select_query \<Rightarrow> ('c, 'g) world \<Rightarrow> error option" where
  "raised q w = (case fault w of Some e \<Rightarrow> Some e | None \<Rightarrow> query_error q)"

section \<open>Sample data\<close>

text \<open>A small pharmacy on day 20000 of the epoch (2024-10-04), ten hours into the day,
  in a time zone seven hours east of UTC. The theorems below are run on it.\<close>

definition sample_medicines :: "unit medicine_row list" where
  "sample_medicines =
     [\<lparr>id' = 1, name = ''Paracetamol'', stock_quantity = 5, minimum_stock = 10,
       price_per_unit = ''1500.00'', expiry_date = Some 20000, other_columns = ()\<rparr>,
      \<lparr>id' = 2, name = ''Amoxicillin'', stock_quantity = 10, minimum_stock = 10,
       price_per_unit = ''2500.50'', expiry_date = Some 20001, other_columns = ()\<rparr>,
      \<lparr>id' = 3, name = ''Betadine'', stock_quantity = 11, minimum_stock = 10,
       price_per_unit = ''12000.00'', expiry_date = None, other_columns = ()\<rparr>,
      \<lparr>id' = 4, name = ''Cetirizine'', stock_quantity = 40, minimum_stock = 20,
       price_per_unit = ''800.00'', expiry_date = Some 19000, other_columns = ()\<rparr>,
      \<lparr>id' = 5, name = ''Vitamin C'', stock_quantity = 100, minimum_stock = 30,
       price_per_unit = ''350.00'', expiry_date = Some 25000, other_columns = ()\<rparr>]"

definition sample_transactions :: "string transaction list" where
  "sample_transactions =
     [\<lparr>transaction.id' = 1, transaction.patient_id = 1, total_amount = ''100000'',
       payment_method = ''tunai'', transaction.payment_status = pending, notes' = None,
       created_at = 1727900000000, updated_at = 1727900000000\<rparr>,
      \<lparr>transaction.id' = 2, transaction.patient_id = 2, total_amount = ''110000'',
       payment_method = ''transfer'', transaction.payment_status = paid, notes' = None,
       created_at = 1728010000000, updated_at = 1728010000000\<rparr>,
      \<lparr>transaction.id' = 3, transaction.patient_id = 1, total_amount = ''120000'',
       payment_method = ''tunai'', transaction.payment_status = cancelled, notes' = None,
       created_at = 1728020000000, updated_at = 1728020000000\<rparr>]"

definition sample_world :: "(unit, unit) world" where
  "sample_world =
     \<lparr>db = \<lparr>medicinesTable = sample_medicines, patientsTable = [], patients_id_seq = 0,
             transactionsTable = sample_transactions\<rparr>,
      clock = 1728036000000, fault = None, column_defaults = (), console = [],
      round_trips = 0, timezone_offset = 25200000\<rparr>"




section \<open>The persistence client and the query builder\<close>

lemma execute_raised:
  "execute q w =
     (case raised q w of
        Some e \<Rightarrow> (Inl e, w\<lparr>round_trips := Suc (round_trips w)\<rparr>)
      | None \<Rightarrow> (Inr (selected q (db w)), w\<lparr>round_trips := Suc (round_trips w)\<rparr>))"
  by (simp add: execute_def raised_def rows_of_def Let_def split: option.splits)

lemma db_execute: "db (snd (execute q w)) = db w"
  by (simp add: execute_raised split: option.splits)

lemma db_try_catch: "db (snd (try_catch msg body w)) = db (snd (body w))"
  by (simp add: try_catch_def split: prod.splits sum.splits)

lemma snd_map_result:
  "snd (case p of (Inl e, w') \<Rightarrow> (Inl e, w') | (Inr rs, w') \<Rightarrow> (Inr (f rs), w')) = snd p"
  by (simp split: prod.splits sum.splits)

lemma snd_lookup_result:
  "snd (case p of (Inl e, w') \<Rightarrow> (Inl e, w')
        | (Inr rs, w') \<Rightarrow> if c rs then (Inr None, w') else (Inr (f rs), w')) = snd p"
  by (simp split: prod.splits sum.splits)

lemma snd_lookup_result':
  "snd (case p of (Inl e, w') \<Rightarrow> (Inl e, w')
        | (Inr rs, w') \<Rightarrow> (case rs of [] \<Rightarrow> (Inr None, w') | t # x \<Rightarrow> (Inr (f t), w'))) = snd p"
  by (simp split: prod.splits sum.splits list.splits)

text \<open>A handler that runs one select and maps the rows.\<close>

lemma select_handler:
  "try_catch msg (\<lambda>w. case execute (q w) w of
                         (Inl e, w') \<Rightarrow> (Inl e, w')
                       | (Inr rs, w') \<Rightarrow> (Inr (f rs), w')) w =
     (case raised (q w) w of
        Some e \<Rightarrow> (Inl e, failed msg e w)
      | None \<Rightarrow> (Inr (f (selected (q w) (db w))), w\<lparr>round_trips := Suc (round_trips w)\<rparr>))"
  by (simp add: try_catch_def execute_raised failed_def split: option.splits)

lemma and3_True: "and3 a b = Some True \<longleftrightarrow> a = Some True \<and> b = Some True"
  by (cases "(a, b)" rule: and3.cases) auto

lemma truth_and': "truth (and' cs) r = Some True \<longleftrightarrow> (\<forall>c\<in>set cs. truth c r = Some True)"
  by (induction cs) (auto simp: and'_def and3_True)

lemma rejected_and': "rejected (and' cs) = first_error (map rejected cs)"
  by (simp add: and'_def)

lemma set_asc: "set (asc c rs) = set rs"
  by (auto simp: asc_def)

lemma set_desc: "set (desc c rs) = set rs"
  by (auto simp: desc_def)

lemma asc_collated_name:
  "asc (collated col medicinesTable_name) rs = sort_key (\<lambda>r. col (name r)) rs"
  by (simp add: asc_def collated_def medicinesTable_name_def)

lemma like_match_any: "like_match ''%%'' s"
  by (induction s) auto

section \<open>Read operations and the store\<close>

lemma db_getMedicines: "db (snd (getMedicines pf col input w)) = db w"
  unfolding getMedicines_def db_try_catch snd_map_result db_execute ..

lemma db_getMedicineById: "db (snd (getMedicineById pf i w)) = db w"
  unfolding getMedicineById_def db_try_catch snd_lookup_result db_execute ..

lemma db_getLowStockMedicines: "db (snd (getLowStockMedicines pf col w)) = db w"
  unfolding getLowStockMedicines_def db_try_catch snd_map_result db_execute ..

lemma db_getExpiredMedicines: "db (snd (getExpiredMedicines pf col w)) = db w"
  unfolding getExpiredMedicines_def Let_def db_try_catch snd_map_result db_execute ..

lemma db_getTransactions: "db (snd (getTransactions pf input w)) = db w"
  unfolding getTransactions_def db_try_catch snd_map_result db_execute ..

lemma db_getTransactionById: "db (snd (getTransactionById pf i w)) = db w"
  unfolding getTransactionById_def db_try_catch snd_lookup_result' db_execute ..

section \<open>What each handler returns\<close>

lemma getMedicines_run:
  "getMedicines pf col input w =
     (case raised (getMedicines_finalQuery col input w) w of
        Some e \<Rightarrow> (Inl e, failed ''Failed to get medicines:'' e w)
      | None \<Rightarrow>
          (Inr (map (to_Medicine pf) (selected (getMedicines_finalQuery col input w) (db w))),
           w\<lparr>round_trips := Suc (round_trips w)\<rparr>))"
  unfolding getMedicines_def by (rule select_handler)








section \<open>Failures\<close>





lemma getTodayTransactions_eq:
  "getTodayTransactions pf w =
     getTransactions pf
       (Some \<lparr>limit = None, offset = None, patient_id = None, payment_status = None,
              start_date = Some (local_midnight w), end_date = None\<rparr>) w"
  by (simp add: getTodayTransactions_def)

section \<open>The query of getMedicines\<close>

lemma first_error_single [simp]: "first_error [x] = x"
  by (cases x) auto

lemma first_error_None_iff: "first_error es = None \<longleftrightarrow> (\<forall>e\<in>set es. e = None)"
  by (induction es rule: first_error.induct) auto

lemma selected_paginate:
  "selected q s =
     paginate (limit_clause q) (offset_clause q)
       (foldr (\<lambda>t rs. t rs) (q_orderBy q) (matching q s))"
  by (simp add: selected_def paginate_def matching_def Let_def split: option.splits)

lemma filter_single_or_and:
  "filter (\<lambda>r. truth (if length cs = 1 then cs ! 0 else and' cs) r = Some True) rows
     = filter (\<lambda>r. \<forall>c\<in>set cs. truth c r = Some True) rows"
proof (cases "length cs = 1")
  case True
  then obtain c where "cs = [c]"
    by (cases cs) auto
  then show ?thesis by simp
next
  case False
  then show ?thesis by (simp add: truth_and')
qed

lemma rejected_single_or_and:
  "rejected (if length cs = 1 then cs ! 0 else and' cs) = first_error (map rejected cs)"
proof (cases "length cs = 1")
  case True
  then obtain c where "cs = [c]"
    by (cases cs) auto
  then show ?thesis by simp
next
  case False
  then show ?thesis by (simp add: rejected_and')
qed

lemma finalQuery_fields:
  "q_from (getMedicines_finalQuery col input w) = medicinesTable"
  "q_orderBy (getMedicines_finalQuery col input w) = [asc (collated col medicinesTable_name)]"
  "q_limit (getMedicines_finalQuery col input w) = nonzero (input_limit input)"
  "q_offset (getMedicines_finalQuery col input w) = nonzero (input_offset input)"
  "q_where (getMedicines_finalQuery col input w) =
     (if getMedicines_conditions w input = [] then None
      else Some (if length (getMedicines_conditions w input) = 1
                 then getMedicines_conditions w input ! 0
                 else and' (getMedicines_conditions w input)))"
  by (simp_all add: getMedicines_finalQuery_def Let_def select_from_def where'_def orderBy_def
      limit'_def offset'_def nonzero_def input_limit_def input_offset_def
      split: option.splits)

lemma finalQuery_limit_clause:
  "limit_clause (getMedicines_finalQuery col input w) = applied_limit (input_limit input)"
  by (simp add: limit_clause_def finalQuery_fields applied_limit_def nonzero_def
      split: option.splits)

lemma finalQuery_offset_clause:
  "offset_clause (getMedicines_finalQuery col input w) = nonzero (input_offset input)"
  by (simp add: offset_clause_def finalQuery_fields nonzero_def split: option.splits)

lemma finalQuery_matching:
  "matching (getMedicines_finalQuery col input w) s
     = filter (\<lambda>r. \<forall>c\<in>set (getMedicines_conditions w input). truth c r = Some True)
         (medicinesTable s)"
proof (cases "getMedicines_conditions w input = []")
  case True
  then show ?thesis by (simp add: matching_def finalQuery_fields)
next
  case False
  then show ?thesis
    by (simp only: matching_def finalQuery_fields if_False option.case filter_single_or_and)
qed

lemma finalQuery_rejected:
  "(case q_where (getMedicines_finalQuery col input w) of Some c \<Rightarrow> rejected c | None \<Rightarrow> None)
     = first_error (map rejected (getMedicines_conditions w input))"
proof (cases "getMedicines_conditions w input = []")
  case True
  then show ?thesis by (simp add: finalQuery_fields)
next
  case False
  then show ?thesis
    by (simp only: finalQuery_fields if_False option.case rejected_single_or_and)
qed

section \<open>Conditions and predicates\<close>

lemma text_error_pattern: "text_error (''%'' @ q @ ''%'') = None \<longleftrightarrow> CHR 0x00 \<notin> set q"
  by (simp add: text_error_def)

lemma query_condition:
  "(\<forall>c\<in>set (case qo of
                 Some q \<Rightarrow> if q \<noteq> [] then [ilike medicinesTable_name (''%'' @ q @ ''%'')] else []
               | None \<Rightarrow> []). truth c r = Some True)
     \<longleftrightarrow> list_all (\<lambda>p. p r)
           (case qo of None \<Rightarrow> [] | Some q \<Rightarrow> [\<lambda>m. like_match (''%'' @ q @ ''%'') (name m)])"
proof (cases qo)
  case None
  then show ?thesis by simp
next
  case (Some q)
  show ?thesis
  proof (cases "q = []")
    case True
    with Some show ?thesis using like_match_any[of "name r"] by simp
  next
    case False
    with Some show ?thesis by (simp add: ilike_def medicinesTable_name_def)
  qed
qed

lemma low_stock_condition:
  "(\<forall>c\<in>set (if b = Some True
               then [lte medicinesTable_stock_quantity (Col medicinesTable_minimum_stock)]
               else []).
        truth c r = Some True)
     \<longleftrightarrow> list_all (\<lambda>p. p r)
           (case b of None \<Rightarrow> [] | Some b \<Rightarrow> [\<lambda>m. if b then low_stock m else True])"
  by (cases b)
     (simp_all add: lte_def compare_def medicinesTable_stock_quantity_def
        medicinesTable_minimum_stock_def low_stock_def)

lemma expired_condition:
  "(\<forall>c\<in>set (if b = Some True
               then [lte medicinesTable_expiry_date (Val today)] else []).
        truth c r = Some True)
     \<longleftrightarrow> list_all (\<lambda>p. p r)
           (case b of None \<Rightarrow> [] | Some b \<Rightarrow> [\<lambda>m. if b then expired today m else True])"
  by (cases b; cases "expiry_date r")
     (simp_all add: lte_def compare_def medicinesTable_expiry_date_def expired_def)

lemma conditions_iff_predicates:
  "(\<forall>c\<in>set (getMedicines_conditions w input). truth c r = Some True)
     \<longleftrightarrow> satisfies_all (present_predicates (current_date w) input) r"
proof (cases input)
  case None
  then show ?thesis
    by (simp add: getMedicines_conditions_def present_predicates_def satisfies_all_def)
next
  case (Some i)
  show ?thesis
    unfolding Some getMedicines_conditions_def present_predicates_def satisfies_all_def
      option.case set_append ball_Un list_all_append
      query_condition low_stock_condition expired_condition ..
qed

lemma query_rejected:
  "(\<forall>c\<in>set (case qo of
                 Some q \<Rightarrow> if q \<noteq> [] then [ilike medicinesTable_name (''%'' @ q @ ''%'')] else []
               | None \<Rightarrow> []). rejected c = None)
     \<longleftrightarrow> (case qo of Some q \<Rightarrow> CHR 0x00 \<notin> set q | None \<Rightarrow> True)"
proof (cases qo)
  case None
  then show ?thesis by simp
next
  case (Some q)
  show ?thesis
  proof (cases "q = []")
    case True
    with Some show ?thesis by simp
  next
    case False
    with Some show ?thesis by (simp add: ilike_def text_error_def)
  qed
qed

lemma low_stock_rejected:
  "(\<forall>c\<in>set (if b = Some True
               then [lte medicinesTable_stock_quantity (Col medicinesTable_minimum_stock)]
               else []).
        rejected c = None) \<longleftrightarrow> True"
  by (simp add: lte_def compare_def)

lemma expired_rejected:
  "(\<forall>c\<in>set (if b = Some True
               then [lte medicinesTable_expiry_date (Val today)] else []).
        rejected c = None)
     \<longleftrightarrow> (if b = Some True then date_error today = None else True)"
  by (simp add: lte_def compare_def medicinesTable_expiry_date_def)

lemma conditions_rejected:
  "first_error (map rejected (getMedicines_conditions w input)) = None
     \<longleftrightarrow> (case input of
            None \<Rightarrow> True
          | Some i \<Rightarrow>
              (case query i of Some q \<Rightarrow> CHR 0x00 \<notin> set q | None \<Rightarrow> True)
              \<and> (if expired_only i = Some True then date_error (current_date w) = None
                  else True))"
proof (cases input)
  case None
  then show ?thesis
    by (simp add: getMedicines_conditions_def)
next
  case (Some i)
  have "first_error (map rejected (getMedicines_conditions w (Some i))) = None
      \<longleftrightarrow> (\<forall>c\<in>set (getMedicines_conditions w (Some i)). rejected c = None)"
    by (simp add: first_error_None_iff)
  also have "\<dots> \<longleftrightarrow> (case query i of Some q \<Rightarrow> CHR 0x00 \<notin> set q | None \<Rightarrow> True)
              \<and> (if expired_only i = Some True then date_error (current_date w) = None
                  else True)"
    unfolding getMedicines_conditions_def option.case set_append ball_Un
      query_rejected low_stock_rejected expired_rejected by simp
  finally show ?thesis
    by (simp add: Some)
qed

lemma limit_accepted:
  "(case applied_limit l of Some n \<Rightarrow> bigint_error n | None \<Rightarrow> None) = None
     \<longleftrightarrow> (case l of Some n \<Rightarrow> n \<le> 9223372036854775807 | None \<Rightarrow> True)"
  by (simp add: applied_limit_def bigint_error_def split: option.splits)

lemma offset_accepted:
  "(case nonzero off of Some n \<Rightarrow> bigint_error n | None \<Rightarrow> None) = None
   \<and> (case nonzero off of
        Some n \<Rightarrow> if n < 0 then Some (StorageFailure ''OFFSET must not be negative'') else None
      | None \<Rightarrow> None) = None
     \<longleftrightarrow> (case off of Some n \<Rightarrow> 0 \<le> n \<and> n \<le> 9223372036854775807 | None \<Rightarrow> True)"
  by (auto simp: nonzero_def bigint_error_def split: option.splits)

lemma accepted_iff_not_raised:
  "raised (getMedicines_finalQuery col input w) w = None \<longleftrightarrow> accepted w input"
proof -
  have "raised (getMedicines_finalQuery col input w) w = None
      \<longleftrightarrow> fault w = None \<and> query_error (getMedicines_finalQuery col input w) = None"
    by (simp add: raised_def split: option.splits)
  also have "query_error (getMedicines_finalQuery col input w) = None
      \<longleftrightarrow> first_error (map rejected (getMedicines_conditions w input)) = None
        \<and> (case input_limit input of Some n \<Rightarrow> n \<le> 9223372036854775807 | None \<Rightarrow> True)
        \<and> (case input_offset input of
              Some n \<Rightarrow> 0 \<le> n \<and> n \<le> 9223372036854775807 | None \<Rightarrow> True)"
    unfolding query_error_def finalQuery_rejected finalQuery_limit_clause
      finalQuery_offset_clause first_error_None_iff
    using limit_accepted[of "input_limit input"] offset_accepted[of "input_offset input"]
    by (auto simp: first_error_None_iff)
  also have "fault w = None \<and> (first_error (map rejected (getMedicines_conditions w input)) = None
        \<and> (case input_limit input of Some n \<Rightarrow> n \<le> 9223372036854775807 | None \<Rightarrow> True)
        \<and> (case input_offset input of
              Some n \<Rightarrow> 0 \<le> n \<and> n \<le> 9223372036854775807 | None \<Rightarrow> True))
      \<longleftrightarrow> accepted w input"
    unfolding conditions_rejected
    by (cases input) (auto simp: accepted_def input_limit_def input_offset_def)
  finally show ?thesis .
qed

lemma getMedicines_result:
  assumes "accepted w input"
  shows "getMedicines pf col input w =
     (Inr (map (to_Medicine pf)
        (paginate (applied_limit (input_limit input)) (input_offset input)
          (sort_key (\<lambda>r. col (name r))
            (filter (satisfies_all (present_predicates (current_date w) input))
              (medicinesTable (db w)))))),
      w\<lparr>round_trips := Suc (round_trips w)\<rparr>)"
proof -
  have r: "raised (getMedicines_finalQuery col input w) w = None"
    using assms by (simp add: accepted_iff_not_raised)
  have p: "paginate l (nonzero off) xs = paginate l off xs" for l off and xs :: "'x list"
    by (simp add: paginate_def nonzero_def)
  have m: "filter (\<lambda>r. \<forall>c\<in>set (getMedicines_conditions w input). truth c r = Some True) rows
         = filter (satisfies_all (present_predicates (current_date w) input)) rows" for rows
    by (simp add: conditions_iff_predicates cong: filter_cong)
  show ?thesis
    unfolding getMedicines_run r option.case selected_paginate finalQuery_limit_clause
      finalQuery_offset_clause finalQuery_fields finalQuery_matching m p
    by (simp add: asc_collated_name)
qed

lemma getMedicines_refused:
  assumes "\<not> accepted w input"
  shows "\<exists>e. getMedicines pf col input w = (Inl e, failed ''Failed to get medicines:'' e w)"
proof -
  from assms obtain e where "raised (getMedicines_finalQuery col input w) w = Some e"
    using accepted_iff_not_raised[of col input w] by (cases "raised (getMedicines_finalQuery col input w) w") auto
  then show ?thesis
    by (simp add: getMedicines_run)
qed

section \<open>Evaluating queries\<close>

lemmas query_defs = getMedicines_finalQuery_def getMedicines_conditions_def getMedicineById_query_def
  getTransactions_finalQuery_def getTransactions_conditions_def getTransactionById_query_def
  getLowStockMedicines_query_def getExpiredMedicines_query_def
  select_from_def where'_def orderBy_def limit'_def offset'_def Let_def

lemmas store_defs = raised_def query_error_def limit_clause_def offset_clause_def
  bigint_error_def integer_error_def date_error_def text_error_def no_error_def
  ilike_def compare_def lte_def gte_def eq_def and'_def


lemma large_id_raised:
  "raised (getMedicineById_query 2147483648 :: (unit medicine_row, unit, unit) select_query) sample_world
     = Some (StorageFailure ''out of range for type integer'')"
  by (simp add: query_defs store_defs sample_world_def medicinesTable_id_def)

section \<open>The claims\<close>

text \<open>
  Claim C9. Every query operation leaves the persistent store unchanged, for every input
  and every state of the store: the store after \<^verbatim>\<open>getMedicines\<close>,
  \<^verbatim>\<open>getMedicineById\<close>, \<^verbatim>\<open>getLowStockMedicines\<close>, \<^verbatim>\<open>getExpiredMedicines\<close>
  and after the transaction list and lookup operations is the store before, whether the
  operation returns or throws.
\<close>

theorem read_operations_leave_store_unchanged:
  "db (snd (getMedicines pf col input w)) = db w
   \<and> db (snd (getMedicineById pf i w)) = db w
   \<and> db (snd (getLowStockMedicines pf col w)) = db w
   \<and> db (snd (getExpiredMedicines pf col w)) = db w
   \<and> db (snd (getTransactions pf tinput w)) = db w
   \<and> db (snd (getTransactionById pf i w)) = db w
   \<and> db (snd (getTodayTransactions pf w)) = db w
   \<and> db (snd (getPendingTransactions pf w)) = db w"
  by (simp add: db_getMedicines db_getMedicineById db_getLowStockMedicines
      db_getExpiredMedicines db_getTransactions db_getTransactionById
      getTodayTransactions_def getPendingTransactions_def)

theorem read_operations_leave_store_unchanged_witness:
  "db (snd (getMedicines (\<lambda>s. s) (\<lambda>s. s)
             (Some \<lparr>limit = Some 2, offset = Some 1, query = Some ''a'',
                    low_stock_only = Some True, expired_only = Some False\<rparr>) sample_world))
     = db sample_world
   \<and> db (snd (getMedicineById (\<lambda>s. s) 3 sample_world)) = db sample_world
   \<and> db (snd (getLowStockMedicines (\<lambda>s. s) (\<lambda>s. s) sample_world)) = db sample_world
   \<and> db (snd (getExpiredMedicines (\<lambda>s. s) (\<lambda>s. s) sample_world)) = db sample_world
   \<and> db (snd (getTransactions (\<lambda>s. s) None sample_world)) = db sample_world
   \<and> db (snd (getTransactionById (\<lambda>s. s) 3 sample_world)) = db sample_world
   \<and> db (snd (getTodayTransactions (\<lambda>s. s) sample_world)) = db sample_world
   \<and> db (snd (getPendingTransactions (\<lambda>s. s) sample_world)) = db sample_world"
  by (rule read_operations_leave_store_unchanged)



end
